theory Spec2Isabelle
  imports Main "HOL-Library.AList"
begin

section \<open>Strings, exceptions and effects\<close>

text \<open>
  A Python \<open>str\<close> is a sequence of Unicode code points, and \<open>len\<close> counts code points.
  The direction glyphs of the frame logger lie outside ASCII, so a string is modelled as
  the list of its code points.
\<close>

type_synonym pystr = "nat list"

definition ustr :: "string \<Rightarrow> pystr" where
  "ustr s = map of_char s"

definition apostrophe :: nat where
  "apostrophe = 39"

definition semicolon :: nat where
  "semicolon = 59"

definition newline :: nat where
  "newline = 10"

text \<open>\<open>repr\<close> of a string without quotes or escapes in it: the text between apostrophes.\<close>

definition quoted :: "pystr \<Rightarrow> pystr" where
  "quoted s = apostrophe # s @ [apostrophe]"

text \<open>The exceptions this program raises itself, with the text \<open>str\<close> gives for them.\<close>

datatype exc_class =
    KeyError
  | AttributeError
  | IndexError
  | WebSocketConnectionClosedException
  | OtherException pystr

datatype exc = Exc exc_class pystr

text \<open>
  \<open>str.split(sep)\<close> with an explicit one-character separator: the pieces between the
  occurrences of \<open>sep\<close>, one piece more than there are occurrences.
\<close>

fun py_split :: "'a \<Rightarrow> 'a list \<Rightarrow> 'a list list" where
  "py_split sep [] = [[]]"
| "py_split sep (c # cs) =
     (if c = sep then [] # py_split sep cs
      else (case py_split sep cs of
              [] \<Rightarrow> [[c]]
            | p # ps \<Rightarrow> (c # p) # ps))"

text \<open>\<open>str.split(sep, maxsplit)\<close>: at most \<open>maxsplit\<close> cuts, the rest is left whole.\<close>

fun py_split_max :: "'a \<Rightarrow> nat \<Rightarrow> 'a list \<Rightarrow> 'a list list" where
  "py_split_max sep 0 s = [s]"
| "py_split_max sep (Suc n) [] = [[]]"
| "py_split_max sep (Suc n) (c # cs) =
     (if c = sep then [] # py_split_max sep n cs
      else (case py_split_max sep (Suc n) cs of
              [] \<Rightarrow> [[c]]
            | p # ps \<Rightarrow> (c # p) # ps))"

text \<open>List indexing as Python does it for a non-negative index: out of range raises.\<close>

definition py_index :: "'a list \<Rightarrow> nat \<Rightarrow> exc + 'a" where
  "py_index xs i =
     (if i < length xs then Inr (xs ! i)
      else Inl (Exc IndexError (ustr ''list index out of range'')))"

section \<open>The signature acquirer\<close>

text \<open>
  \<open>get_signature\<close> drives a browser and parses the resulting page. What the browser and
  the HTML parser deliver is the environment's answer: either that stage raised, or the
  parser found no \<open>script\<close> tag (\<open>soup.find\<close> returns \<open>None\<close>), or it gives the text of
  the first \<open>script\<close> tag.
\<close>

type_synonym page = "exc + pystr option"

definition get_signature :: "page \<Rightarrow> exc + pystr" where
  "get_signature pg =
     (case pg of
        Inl e \<Rightarrow> Inl e
      | Inr None \<Rightarrow>
          Inl (Exc AttributeError
                 (quoted (ustr ''NoneType'') @ ustr '' object has no attribute ''
                    @ quoted (ustr ''text'')))
      | Inr (Some script_tag) \<Rightarrow>
          (case py_index (py_split_max semicolon 1 script_tag) 0 of
             Inl e \<Rightarrow> Inl e
           | Inr sig_plus_wrap \<Rightarrow> py_index (py_split apostrophe sig_plus_wrap) 1))"

section \<open>Clock readings and their rendering\<close>

record datetime =
  year :: nat
  month :: nat
  day :: nat
  hour :: nat
  minute :: nat
  second :: nat
  microsecond :: nat

text \<open>The ranges Python's \<open>datetime\<close> class enforces on its fields.\<close>

definition valid_datetime :: "datetime \<Rightarrow> bool" where
  "valid_datetime t \<longleftrightarrow>
     1 \<le> year t \<and> year t \<le> 9999 \<and> 1 \<le> month t \<and> month t \<le> 12 \<and>
     1 \<le> day t \<and> day t \<le> 31 \<and> hour t < 24 \<and> minute t < 60 \<and> second t < 60 \<and>
     microsecond t < 1000000"

definition digit :: "nat \<Rightarrow> nat" where
  "digit d = 48 + d"

text \<open>The decimal numeral of a number, most significant digit first.\<close>

fun decimal :: "nat \<Rightarrow> pystr" where
  "decimal n = (if n < 10 then [digit n] else decimal (n div 10) @ [digit (n mod 10)])"

declare decimal.simps [simp del]

text \<open>A number padded with zeros on the left to at least \<open>w\<close> digits, as \<open>%H\<close>, \<open>%f\<close> do.\<close>

definition zpad :: "nat \<Rightarrow> nat \<Rightarrow> pystr" where
  "zpad w n = replicate (w - length (decimal n)) (digit 0) @ decimal n"

text \<open>\<open>strftime("%H:%M:%S.%f")\<close>\<close>

definition strftime_HMSf :: "datetime \<Rightarrow> pystr" where
  "strftime_HMSf t =
     zpad 2 (hour t) @ ustr '':'' @ zpad 2 (minute t) @ ustr '':'' @ zpad 2 (second t)
       @ ustr ''.'' @ zpad 6 (microsecond t)"

text \<open>
  \<open>strftime("%d/%m/%Y , %H:%M:%S")\<close>. The C library prints the year of \<open>%Y\<close> as a
  plain decimal number, without padding.
\<close>

definition strftime_dmY_HMS :: "datetime \<Rightarrow> pystr" where
  "strftime_dmY_HMS t =
     zpad 2 (day t) @ ustr ''/'' @ zpad 2 (month t) @ ustr ''/'' @ decimal (year t)
       @ ustr '' , '' @ zpad 2 (hour t) @ ustr '':'' @ zpad 2 (minute t) @ ustr '':''
       @ zpad 2 (second t)"

text \<open>The slice \<open>s[:-3]\<close>: all but the last three characters, empty for a shorter string.\<close>

definition drop_last3 :: "'a list \<Rightarrow> 'a list" where
  "drop_last3 s = take (length s - 3) s"

section \<open>Effects\<close>

text \<open>
  The program keeps no state of its own between callbacks: what it does is the sequence
  of its effects, in order. \<open>Stdout s\<close> is one call \<open>print(s)\<close>, \<open>Stderr s\<close> one line of
  a printed traceback, \<open>Acquire\<close> one call of \<open>get_signature\<close>, \<open>Send f\<close> one call
  \<open>ws.send(f)\<close>, \<open>Raise e\<close> an exception leaving the function, \<open>RunForever d\<close> the call
  \<open>ws.run_forever\<close> with reconnect delay \<open>d\<close>. \<open>LogFrame m r\<close> marks an invocation
  \<open>log_ws_message(m, r)\<close>.
\<close>

datatype effect =
    Stdout pystr
  | Stderr pystr
  | Acquire
  | Send pystr
  | Raise exc
  | RunForever nat
  | LogFrame pystr bool

section \<open>The frame logger\<close>

record message_data =
  md_time :: pystr
  md_length :: nat
  md_message :: pystr
  md_received :: bool

definition down_arrow :: nat where
  "down_arrow = 8595"

definition up_arrow :: nat where
  "up_arrow = 8593"

definition direction_indicator :: "bool \<Rightarrow> nat" where
  "direction_indicator received = (if received then down_arrow else up_arrow)"

definition make_message_data :: "datetime \<Rightarrow> pystr \<Rightarrow> bool \<Rightarrow> message_data" where
  "make_message_data utcnow raw_message received =
     \<lparr> md_time = drop_last3 (strftime_HMSf utcnow),
       md_length = length raw_message,
       md_message = raw_message,
       md_received = received \<rparr>"

definition formatted_output :: "datetime \<Rightarrow> pystr \<Rightarrow> bool \<Rightarrow> pystr" where
  "formatted_output utcnow raw_message received =
     (let message_data = make_message_data utcnow raw_message received
      in direction_indicator received # ustr ''['' @ md_time message_data @ ustr ''] ''
           @ md_message message_data)"

definition log_ws_message :: "datetime \<Rightarrow> pystr \<Rightarrow> bool \<Rightarrow> effect list" where
  "log_ws_message utcnow raw_message received =
     [LogFrame raw_message received, Stdout (formatted_output utcnow raw_message received)]"

text \<open>What \<open>print(s)\<close> writes to the output stream: the text and a line break.\<close>

definition printed :: "pystr \<Rightarrow> pystr" where
  "printed s = s @ [newline]"

section \<open>The callbacks\<close>

text \<open>
  The error object the transport library hands to \<open>on_ws_error\<close>: its class, the text
  \<open>print(error)\<close> shows, and the lines \<open>traceback.print_tb\<close> writes for its traceback.
\<close>

datatype error = Error (err_class: exc_class) (err_str: pystr) (err_tb: "pystr list")

definition on_ws_message :: "datetime \<Rightarrow> pystr \<Rightarrow> effect list" where
  "on_ws_message utcnow raw_message = log_ws_message utcnow raw_message True"

definition on_ws_error :: "datetime \<Rightarrow> error \<Rightarrow> effect list" where
  "on_ws_error now err =
     (if err_class err = WebSocketConnectionClosedException
      then [Stdout (ustr ''Connection closed. Retrying...'')]
      else [Stdout (strftime_dmY_HMS now), Stdout (err_str err)] @ map Stderr (err_tb err))"

definition on_ws_close :: "nat option \<Rightarrow> pystr option \<Rightarrow> effect list" where
  "on_ws_close close_status_code close_msg = [Stdout (ustr ''### closed ###'')]"

definition on_ws_open :: "page \<Rightarrow> effect list" where
  "on_ws_open pg =
     [Stdout (ustr ''Opened connection.''), Stdout (ustr ''Acquiring signature...''), Acquire]
       @ (case get_signature pg of
            Inl e \<Rightarrow> [Raise e]
          | Inr signature \<Rightarrow>
              [Stdout (ustr ''Signature acquired.''), Stdout (ustr ''Logging in...''),
               Send (ustr ''LOGIN='' @ signature)])"

section \<open>Sessions and the program\<close>

text \<open>
  The transport library calls \<open>on_ws_open\<close> once when a connection opens and then the
  other callbacks as events arrive, each with the clock reading the callback takes.
  It catches an exception that leaves a callback and goes on delivering events.
\<close>

datatype event =
    WsMessage pystr datetime
  | WsError error datetime
  | WsClose "nat option" "pystr option"

fun dispatch :: "event \<Rightarrow> effect list" where
  "dispatch (WsMessage raw_message utcnow) = on_ws_message utcnow raw_message"
| "dispatch (WsError err now) = on_ws_error now err"
| "dispatch (WsClose code msg) = on_ws_close code msg"

type_synonym session = "page \<times> event list"

definition run_session :: "session \<Rightarrow> effect list" where
  "run_session s = on_ws_open (fst s) @ concat (map dispatch (snd s))"

type_synonym environ = "pystr \<rightharpoonup> pystr"

definition get_env_var :: "environ \<Rightarrow> pystr \<Rightarrow> effect list \<times> (exc + pystr)" where
  "get_env_var env env_var =
     (case env env_var of
        Some v \<Rightarrow> ([], Inr v)
      | None \<Rightarrow>
          ([Stdout (ustr ''Missing environment variable: '' @ env_var)],
           Inl (Exc KeyError (quoted env_var))))"

text \<open>The loop of \<open>get_env_consts\<close> over the keys of the dictionary, in insertion order.\<close>

fun load_keys ::
  "environ \<Rightarrow> pystr list \<Rightarrow> (pystr \<times> pystr) list
     \<Rightarrow> effect list \<times> (exc + (pystr \<times> pystr) list)" where
  "load_keys env [] env_const_dict = ([], Inr env_const_dict)"
| "load_keys env (key # keys) env_const_dict =
     (case get_env_var env key of
        (out, Inl e) \<Rightarrow> (out, Inl e)
      | (out, Inr v) \<Rightarrow>
          (case load_keys env keys (AList.update key v env_const_dict) of
             (out', r) \<Rightarrow> (out @ out', r)))"

definition get_env_consts :: "environ \<Rightarrow> effect list \<times> (exc + (pystr \<times> pystr) list)" where
  "get_env_consts env =
     (let env_const_dict = [(ustr ''IP_USERNAME'', []), (ustr ''IP_PASSWORD'', [])]
      in load_keys env (map fst env_const_dict) env_const_dict)"

text \<open>
  The main block: the credentials are loaded first; an exception there ends the process.
  Otherwise the transport is started and the sessions the library runs follow.
\<close>

definition main :: "environ \<Rightarrow> session list \<Rightarrow> effect list" where
  "main env sessions =
     (case get_env_consts env of
        (out, Inl e) \<Rightarrow> out @ [Raise e]
      | (out, Inr env_consts) \<Rightarrow>
          out @ [RunForever 120] @ concat (map run_session sessions))"

section \<open>Reading a trace\<close>

fun sent :: "effect list \<Rightarrow> pystr list" where
  "sent [] = []"
| "sent (Send f # es) = f # sent es"
| "sent (_ # es) = sent es"

fun acquisitions :: "effect list \<Rightarrow> nat" where
  "acquisitions [] = 0"
| "acquisitions (Acquire # es) = Suc (acquisitions es)"
| "acquisitions (_ # es) = acquisitions es"

fun log_calls :: "effect list \<Rightarrow> (pystr \<times> bool) list" where
  "log_calls [] = []"
| "log_calls (LogFrame m r # es) = (m, r) # log_calls es"
| "log_calls (_ # es) = log_calls es"

fun raised :: "effect list \<Rightarrow> exc list" where
  "raised [] = []"
| "raised (Raise e # es) = e # raised es"
| "raised (_ # es) = raised es"

fun connects :: "effect list \<Rightarrow> nat" where
  "connects [] = 0"
| "connects (RunForever d # es) = Suc (connects es)"
| "connects (_ # es) = connects es"

text \<open>
  The frames sent before the first inbound frame is logged, in order; all the frames sent
  when no inbound frame is logged.
\<close>

fun sent_before_inbound :: "effect list \<Rightarrow> pystr list" where
  "sent_before_inbound [] = []"
| "sent_before_inbound (Send f # es) = f # sent_before_inbound es"
| "sent_before_inbound (LogFrame m r # es) = (if r then [] else sent_before_inbound es)"
| "sent_before_inbound (_ # es) = sent_before_inbound es"

text \<open>The payloads of the inbound frames among the events of a session, in arrival order.\<close>

fun frames_of :: "event list \<Rightarrow> pystr list" where
  "frames_of [] = []"
| "frames_of (WsMessage m t # evs) = m # frames_of evs"
| "frames_of (_ # evs) = frames_of evs"

section \<open>The specification's description of the signature\<close>

text \<open>The content up to the first semicolon, all of it when there is none.\<close>

definition pre_semicolon :: "pystr \<Rightarrow> pystr" where
  "pre_semicolon s = takeWhile (\<lambda>c. c \<noteq> semicolon) s"

text \<open>What follows the first occurrence of a character, if it occurs.\<close>

fun after_first :: "'a \<Rightarrow> 'a list \<Rightarrow> 'a list option" where
  "after_first a [] = None"
| "after_first a (c # cs) = (if c = a then Some cs else after_first a cs)"

text \<open>What precedes the first occurrence of a character, if it occurs.\<close>

fun upto_first :: "'a \<Rightarrow> 'a list \<Rightarrow> 'a list option" where
  "upto_first a [] = None"
| "upto_first a (c # cs) =
     (if c = a then Some [] else map_option ((#) c) (upto_first a cs))"

text \<open>
  The first single-quoted literal of a text, in the specification's words the substring
  lying between its first and its second apostrophe: what follows the first apostrophe,
  up to the next one. There is none unless the text has two apostrophes.
\<close>

definition first_quoted :: "pystr \<Rightarrow> pystr option" where
  "first_quoted p =
     (case after_first apostrophe p of
        None \<Rightarrow> None
      | Some r \<Rightarrow> upto_first apostrophe r)"

section \<open>The rendering \<open>HH:MM:SS.mmm\<close>\<close>

text \<open>The last \<open>w\<close> decimal digits of a number, most significant first.\<close>

fun fixw :: "nat \<Rightarrow> nat \<Rightarrow> pystr" where
  "fixw 0 n = []"
| "fixw (Suc w) n = fixw w (n div 10) @ [digit (n mod 10)]"

text \<open>Hours, minutes and seconds in two digits each, and the milliseconds in three.\<close>

definition hms_millis :: "datetime \<Rightarrow> pystr" where
  "hms_millis t =
     fixw 2 (hour t) @ ustr '':'' @ fixw 2 (minute t) @ ustr '':'' @ fixw 2 (second t)
       @ ustr ''.'' @ fixw 3 (microsecond t div 1000)"

text \<open>The number of digits of a year between 1 and 9999.\<close>

definition year_width :: "nat \<Rightarrow> nat" where
  "year_width y = (if y < 10 then 1 else if y < 100 then 2 else if y < 1000 then 3 else 4)"

text \<open>
  Day and month in two digits each, the year in as many digits as it has, then the time
  of day in two digits each: \<open>DD/MM/YYYY , HH:MM:SS\<close>.
\<close>

definition date_time_text :: "datetime \<Rightarrow> pystr" where
  "date_time_text t =
     fixw 2 (day t) @ ustr ''/'' @ fixw 2 (month t) @ ustr ''/''
       @ fixw (year_width (year t)) (year t)
       @ ustr '' , '' @ fixw 2 (hour t) @ ustr '':'' @ fixw 2 (minute t) @ ustr '':''
       @ fixw 2 (second t)"

section \<open>Traces of the callbacks\<close>

lemma sent_append: "sent (a @ b) = sent a @ sent b"
  by (induction a rule: sent.induct) simp_all

lemma acquisitions_append: "acquisitions (a @ b) = acquisitions a + acquisitions b"
  by (induction a rule: acquisitions.induct) simp_all

lemma log_calls_append: "log_calls (a @ b) = log_calls a @ log_calls b"
  by (induction a rule: log_calls.induct) simp_all

lemma raised_append: "raised (a @ b) = raised a @ raised b"
  by (induction a rule: raised.induct) simp_all

lemma connects_append: "connects (a @ b) = connects a + connects b"
  by (induction a rule: connects.induct) simp_all

lemma stderr_lines_quiet:
  "sent (map Stderr ls) = [] \<and> acquisitions (map Stderr ls) = 0 \<and>
   log_calls (map Stderr ls) = [] \<and> raised (map Stderr ls) = [] \<and>
   connects (map Stderr ls) = 0"
  by (induction ls) simp_all

lemma dispatch_quiet:
  "sent (dispatch ev) = [] \<and> acquisitions (dispatch ev) = 0 \<and> raised (dispatch ev) = [] \<and>
   connects (dispatch ev) = 0"
  by (cases ev)
     (simp_all add: on_ws_message_def log_ws_message_def on_ws_error_def on_ws_close_def
        stderr_lines_quiet)

lemma log_calls_dispatch: "log_calls (dispatch ev) = map (\<lambda>m. (m, True)) (frames_of [ev])"
  by (cases ev)
     (simp_all add: on_ws_message_def log_ws_message_def on_ws_error_def on_ws_close_def
        stderr_lines_quiet)

lemma events_quiet:
  "sent (concat (map dispatch evs)) = [] \<and> acquisitions (concat (map dispatch evs)) = 0 \<and>
   raised (concat (map dispatch evs)) = [] \<and> connects (concat (map dispatch evs)) = 0"
  by (induction evs)
     (simp_all add: sent_append acquisitions_append raised_append connects_append dispatch_quiet)

lemma log_calls_events:
  "log_calls (concat (map dispatch evs)) = map (\<lambda>m. (m, True)) (frames_of evs)"
proof (induction evs)
  case Nil
  show ?case by simp
next
  case (Cons ev evs)
  have "frames_of (ev # evs) = frames_of [ev] @ frames_of evs"
    by (cases ev) simp_all
  with Cons show ?case
    by (simp add: log_calls_append log_calls_dispatch)
qed

lemma on_ws_open_returned:
  "get_signature pg = Inr signature \<Longrightarrow>
   on_ws_open pg =
     [Stdout (ustr ''Opened connection.''), Stdout (ustr ''Acquiring signature...''), Acquire,
      Stdout (ustr ''Signature acquired.''), Stdout (ustr ''Logging in...''),
      Send (ustr ''LOGIN='' @ signature)]"
  by (simp add: on_ws_open_def)

lemma on_ws_open_raised:
  "get_signature pg = Inl e \<Longrightarrow>
   on_ws_open pg =
     [Stdout (ustr ''Opened connection.''), Stdout (ustr ''Acquiring signature...''), Acquire,
      Raise e]"
  by (simp add: on_ws_open_def)

lemma acquisitions_on_ws_open: "acquisitions (on_ws_open pg) = 1"
  by (cases "get_signature pg") (simp_all add: on_ws_open_raised on_ws_open_returned)

lemma log_calls_on_ws_open: "log_calls (on_ws_open pg) = []"
  by (cases "get_signature pg") (simp_all add: on_ws_open_raised on_ws_open_returned)

lemma connects_on_ws_open: "connects (on_ws_open pg) = 0"
  by (cases "get_signature pg") (simp_all add: on_ws_open_raised on_ws_open_returned)

lemma log_calls_run_session:
  "log_calls (run_session (pg, evs)) = map (\<lambda>m. (m, True)) (frames_of evs)"
  by (simp add: run_session_def log_calls_append log_calls_on_ws_open log_calls_events)

lemma log_calls_sessions:
  "set (log_calls (concat (map run_session ss))) \<subseteq> {(m, r). r}"
proof (induction ss)
  case Nil
  show ?case by simp
next
  case (Cons s ss)
  obtain pg evs where s: "s = (pg, evs)" by (cases s)
  from Cons show ?case
    by (auto simp: s log_calls_append log_calls_run_session)
qed

lemma sent_before_inbound_quiet: "sent es = [] \<Longrightarrow> sent_before_inbound es = []"
  by (induction es rule: sent_before_inbound.induct) simp_all

lemma sent_before_inbound_returned:
  "get_signature pg = Inr signature \<Longrightarrow>
   sent_before_inbound (run_session (pg, evs)) = [ustr ''LOGIN='' @ signature]"
  by (simp add: run_session_def on_ws_open_returned sent_before_inbound_quiet events_quiet)

section \<open>The login frame\<close>

text \<open>
  Claim C1, as stated, fails: in a session whose script text has no apostrophe the
  acquirer is called once and raises, and the session sends no frame at all.
\<close>

theorem failed_acquisition_sends_nothing:
  "acquisitions (run_session (Inr (Some (ustr ''var s = 1'' @ [semicolon])), [])) = 1 \<and>
   raised (run_session (Inr (Some (ustr ''var s = 1'' @ [semicolon])), []))
     = [Exc IndexError (ustr ''list index out of range'')] \<and>
   sent (run_session (Inr (Some (ustr ''var s = 1'' @ [semicolon])), [])) = []"
  by (simp add: run_session_def on_ws_open_def get_signature_def py_index_def ustr_def
        apostrophe_def semicolon_def)

text \<open>
  Claim C1, amended. In every session the open callback calls the signature acquirer
  exactly once. When the acquirer returns a signature, the callback then sends exactly
  one frame, the text \<open>LOGIN=\<close> followed by the signature as returned; that frame is the
  only frame the session sends, and it is sent before any inbound frame is logged. When
  the acquirer raises, the session sends nothing.
\<close>

theorem on_ws_open_sends_login_first:
  "acquisitions (run_session (pg, evs)) = 1 \<and>
   (\<forall>signature. get_signature pg = Inr signature \<longrightarrow>
      on_ws_open pg =
        [Stdout (ustr ''Opened connection.''), Stdout (ustr ''Acquiring signature...''),
         Acquire, Stdout (ustr ''Signature acquired.''), Stdout (ustr ''Logging in...''),
         Send (ustr ''LOGIN='' @ signature)] \<and>
      sent (run_session (pg, evs)) = [ustr ''LOGIN='' @ signature] \<and>
      sent_before_inbound (run_session (pg, evs)) = [ustr ''LOGIN='' @ signature]) \<and>
   (\<forall>e. get_signature pg = Inl e \<longrightarrow> sent (run_session (pg, evs)) = [])"
proof -
  have acq: "acquisitions (run_session (pg, evs)) = 1"
    by (simp add: run_session_def acquisitions_append acquisitions_on_ws_open events_quiet)
  have ok: "on_ws_open pg =
        [Stdout (ustr ''Opened connection.''), Stdout (ustr ''Acquiring signature...''),
         Acquire, Stdout (ustr ''Signature acquired.''), Stdout (ustr ''Logging in...''),
         Send (ustr ''LOGIN='' @ signature)] \<and>
      sent (run_session (pg, evs)) = [ustr ''LOGIN='' @ signature] \<and>
      sent_before_inbound (run_session (pg, evs)) = [ustr ''LOGIN='' @ signature]"
    if "get_signature pg = Inr signature" for signature
    using that
    by (simp add: sent_before_inbound_returned)
       (simp add: run_session_def on_ws_open_returned sent_append events_quiet)
  have bad: "sent (run_session (pg, evs)) = []" if "get_signature pg = Inl e" for e
    using that by (simp add: run_session_def on_ws_open_raised sent_append events_quiet)
  from acq ok bad show ?thesis by blast
qed

theorem on_ws_open_sends_login_first_witness:
  "get_signature (Inr (Some (ustr ''var s = '' @ [apostrophe] @ ustr ''abc123''
       @ [apostrophe, semicolon]))) = Inr (ustr ''abc123'') \<and>
   sent_before_inbound (run_session (Inr (Some (ustr ''var s = '' @ [apostrophe]
       @ ustr ''abc123'' @ [apostrophe, semicolon])),
     [WsMessage (ustr ''PING'')
        \<lparr>year = 2024, month = 3, day = 7, hour = 9, minute = 5, second = 0,
         microsecond = 123456\<rparr>])) = [ustr ''LOGIN=abc123'']"
proof -
  let ?pg = "Inr (Some (ustr ''var s = '' @ [apostrophe] @ ustr ''abc123''
       @ [apostrophe, semicolon])) :: page"
  have h: "get_signature ?pg = Inr (ustr ''abc123'')"
    by (simp add: get_signature_def py_index_def ustr_def apostrophe_def semicolon_def)
  have "ustr ''LOGIN='' @ ustr ''abc123'' = ustr ''LOGIN=abc123''"
    by (simp add: ustr_def)
  with h on_ws_open_sends_login_first [of ?pg "[WsMessage (ustr ''PING'')
        \<lparr>year = 2024, month = 3, day = 7, hour = 9, minute = 5, second = 0,
         microsecond = 123456\<rparr>]"]
  show ?thesis
    by simp
qed

section \<open>An empty signature\<close>

text \<open>
  Claim C2, as stated, fails: for a script text whose first quoted literal is empty the
  acquirer returns the empty string, no exception is raised, and the session sends the
  frame \<open>LOGIN=\<close>.
\<close>

theorem empty_signature_is_sent:
  "get_signature (Inr (Some (ustr ''var s = '' @ [apostrophe, apostrophe, semicolon]))) = Inr [] \<and>
   sent (run_session (Inr (Some (ustr ''var s = '' @ [apostrophe, apostrophe, semicolon])), []))
     = [ustr ''LOGIN=''] \<and>
   raised (run_session (Inr (Some (ustr ''var s = '' @ [apostrophe, apostrophe, semicolon])), []))
     = []"
  by (simp add: run_session_def on_ws_open_def get_signature_def py_index_def ustr_def
        apostrophe_def semicolon_def)

text \<open>
  Claim C2, amended. The open callback does not inspect the signature: when the acquirer
  returns the empty string the callback raises nothing and sends the frame \<open>LOGIN=\<close>,
  as for every returned string it sends \<open>LOGIN=\<close> followed by that string. The login
  frame is not sent exactly when the acquirer raises; that exception leaves the callback.
\<close>

theorem on_ws_open_no_signature_check:
  "(get_signature pg = Inr [] \<longrightarrow>
      on_ws_open pg =
        [Stdout (ustr ''Opened connection.''), Stdout (ustr ''Acquiring signature...''),
         Acquire, Stdout (ustr ''Signature acquired.''), Stdout (ustr ''Logging in...''),
         Send (ustr ''LOGIN='')] \<and>
      raised (on_ws_open pg) = []) \<and>
   (\<forall>signature. get_signature pg = Inr signature \<longrightarrow>
      sent (on_ws_open pg) = [ustr ''LOGIN='' @ signature] \<and> raised (on_ws_open pg) = []) \<and>
   (\<forall>e. get_signature pg = Inl e \<longrightarrow>
      sent (on_ws_open pg) = [] \<and> raised (on_ws_open pg) = [e]) \<and>
   (sent (on_ws_open pg) = [] \<longleftrightarrow> (\<exists>e. get_signature pg = Inl e))"
  by (cases "get_signature pg") (simp_all add: on_ws_open_def)

theorem on_ws_open_no_signature_check_witness:
  "get_signature (Inr (Some (ustr ''var s = '' @ [apostrophe, apostrophe, semicolon]))) = Inr [] \<and>
   sent (on_ws_open (Inr (Some (ustr ''var s = '' @ [apostrophe, apostrophe, semicolon]))))
     = [ustr ''LOGIN='']"
proof -
  let ?pg = "Inr (Some (ustr ''var s = '' @ [apostrophe, apostrophe, semicolon])) :: page"
  have h: "get_signature ?pg = Inr []"
    by (simp add: get_signature_def py_index_def ustr_def apostrophe_def semicolon_def)
  with on_ws_open_no_signature_check [of ?pg] show ?thesis
    by simp
qed

section \<open>Inbound frames\<close>

text \<open>
  Claim C3, as stated, fails: in a session whose page has no script tag the acquirer
  raises, no frame is ever sent, and the inbound frame that follows is logged all the
  same, with nothing sent before it.
\<close>

theorem inbound_logged_without_login:
  "sent (run_session (Inr None,
     [WsMessage (ustr ''PING'')
        \<lparr>year = 2024, month = 3, day = 7, hour = 9, minute = 5, second = 0,
         microsecond = 123456\<rparr>])) = [] \<and>
   log_calls (run_session (Inr None,
     [WsMessage (ustr ''PING'')
        \<lparr>year = 2024, month = 3, day = 7, hour = 9, minute = 5, second = 0,
         microsecond = 123456\<rparr>])) = [(ustr ''PING'', True)] \<and>
   sent_before_inbound (run_session (Inr None,
     [WsMessage (ustr ''PING'')
        \<lparr>year = 2024, month = 3, day = 7, hour = 9, minute = 5, second = 0,
         microsecond = 123456\<rparr>])) = []"
  by (simp add: run_session_def on_ws_open_def get_signature_def on_ws_message_def
        log_ws_message_def)

text \<open>
  Claim C3, amended. Every inbound frame is handed to the frame logger with direction
  inbound, which marks the call and prints one text and does nothing else; the frames of
  a session are logged in arrival order. In a session whose acquirer returns a signature
  the frame \<open>LOGIN=\<close> followed by that signature, and no other, has been sent before the
  first inbound frame is logged. In a session whose acquirer raises, no frame is sent at
  all, and the inbound frames are logged nevertheless.
\<close>

theorem inbound_frames_forwarded:
  "dispatch (WsMessage m t) = log_ws_message t m True \<and>
   log_ws_message t m True = [LogFrame m True, Stdout (formatted_output t m True)] \<and>
   log_calls (run_session (pg, evs)) = map (\<lambda>m. (m, True)) (frames_of evs) \<and>
   (\<forall>signature. get_signature pg = Inr signature \<longrightarrow>
      sent_before_inbound (run_session (pg, evs)) = [ustr ''LOGIN='' @ signature]) \<and>
   (\<forall>e. get_signature pg = Inl e \<longrightarrow>
      sent (run_session (pg, evs)) = [] \<and> sent_before_inbound (run_session (pg, evs)) = [])"
proof -
  have a: "dispatch (WsMessage m t) = log_ws_message t m True"
    by (simp add: on_ws_message_def)
  have b: "log_ws_message t m True = [LogFrame m True, Stdout (formatted_output t m True)]"
    by (simp add: log_ws_message_def)
  have c: "sent_before_inbound (run_session (pg, evs)) = [ustr ''LOGIN='' @ signature]"
    if "get_signature pg = Inr signature" for signature
    using that by (rule sent_before_inbound_returned)
  have d: "sent (run_session (pg, evs)) = [] \<and> sent_before_inbound (run_session (pg, evs)) = []"
    if "get_signature pg = Inl e" for e
  proof -
    from that have "sent (run_session (pg, evs)) = []"
      by (simp add: run_session_def on_ws_open_raised sent_append events_quiet)
    then show ?thesis by (simp add: sent_before_inbound_quiet)
  qed
  from a b c d log_calls_run_session [of pg evs] show ?thesis by blast
qed

theorem inbound_frames_forwarded_witness:
  "get_signature (Inr (Some (ustr ''var t = '' @ [apostrophe] @ ustr ''k9''
       @ [apostrophe, semicolon]))) = Inr (ustr ''k9'') \<and>
   sent_before_inbound (run_session (Inr (Some (ustr ''var t = '' @ [apostrophe]
       @ ustr ''k9'' @ [apostrophe, semicolon])),
     [WsMessage (ustr ''PING'')
        \<lparr>year = 2024, month = 3, day = 7, hour = 9, minute = 5, second = 0,
         microsecond = 123456\<rparr>])) = [ustr ''LOGIN=k9''] \<and>
   get_signature (Inr None) =
     Inl (Exc AttributeError
            (quoted (ustr ''NoneType'') @ ustr '' object has no attribute ''
               @ quoted (ustr ''text''))) \<and>
   sent (run_session (Inr None, [WsClose None None])) = []"
proof -
  let ?pg = "Inr (Some (ustr ''var t = '' @ [apostrophe] @ ustr ''k9''
       @ [apostrophe, semicolon])) :: page"
  have h: "get_signature ?pg = Inr (ustr ''k9'')"
    by (simp add: get_signature_def py_index_def ustr_def apostrophe_def semicolon_def)
  have n: "get_signature (Inr None) =
     Inl (Exc AttributeError
            (quoted (ustr ''NoneType'') @ ustr '' object has no attribute ''
               @ quoted (ustr ''text'')))"
    by (simp add: get_signature_def)
  have l: "ustr ''LOGIN='' @ ustr ''k9'' = ustr ''LOGIN=k9''"
    by (simp add: ustr_def)
  let ?t = "\<lparr>year = 2024, month = 3, day = 7, hour = 9, minute = 5, second = 0,
         microsecond = 123456\<rparr>"
  let ?evs = "[WsMessage (ustr ''PING'') ?t]"
  have "sent_before_inbound (run_session (?pg, ?evs)) = [ustr ''LOGIN='' @ ustr ''k9'']"
    by (rule inbound_frames_forwarded [of "ustr ''PING''" ?t ?pg ?evs, THEN conjunct2,
          THEN conjunct2, THEN conjunct2, THEN conjunct1, THEN spec, THEN mp, OF h])
  then have a: "sent_before_inbound (run_session (?pg, ?evs)) = [ustr ''LOGIN=k9'']"
    by (simp only: l)
  have b: "sent (run_session (Inr None, [WsClose None None])) = []"
    by (rule inbound_frames_forwarded [of "ustr ''PING''" ?t "Inr None" "[WsClose None None]",
          THEN conjunct2, THEN conjunct2, THEN conjunct2, THEN conjunct2, THEN spec,
          THEN mp, OF n, THEN conjunct1])
  show ?thesis
    by (rule conjI [OF h conjI [OF a conjI [OF n b]]])
qed

section \<open>Loading the credentials\<close>

lemma get_env_consts_missing_username:
  "env (ustr ''IP_USERNAME'') = None \<Longrightarrow>
   get_env_consts env =
     ([Stdout (ustr ''Missing environment variable: '' @ ustr ''IP_USERNAME'')],
      Inl (Exc KeyError (quoted (ustr ''IP_USERNAME''))))"
  by (simp add: get_env_consts_def get_env_var_def)

lemma get_env_consts_missing_password:
  "env (ustr ''IP_USERNAME'') = Some u \<Longrightarrow> env (ustr ''IP_PASSWORD'') = None \<Longrightarrow>
   get_env_consts env =
     ([Stdout (ustr ''Missing environment variable: '' @ ustr ''IP_PASSWORD'')],
      Inl (Exc KeyError (quoted (ustr ''IP_PASSWORD''))))"
  by (simp add: get_env_consts_def get_env_var_def)

lemma get_env_consts_present:
  "env (ustr ''IP_USERNAME'') = Some u \<Longrightarrow> env (ustr ''IP_PASSWORD'') = Some p \<Longrightarrow>
   get_env_consts env = ([], Inr [(ustr ''IP_USERNAME'', u), (ustr ''IP_PASSWORD'', p)])"
  by (simp add: get_env_consts_def get_env_var_def ustr_def)

text \<open>
  Claim C6. When \<open>IP_USERNAME\<close> is absent the program prints the diagnostic naming it
  and ends with the \<open>KeyError\<close>; when only \<open>IP_PASSWORD\<close> is absent the diagnostic
  names that one. Loading stops at the first absent variable, and in both cases the
  transport is never started, no signature is acquired and no frame is sent.
\<close>

theorem main_missing_credential:
  "(env (ustr ''IP_USERNAME'') = None \<longrightarrow>
      main env sessions =
        [Stdout (ustr ''Missing environment variable: '' @ ustr ''IP_USERNAME''),
         Raise (Exc KeyError (quoted (ustr ''IP_USERNAME'')))]) \<and>
   (env (ustr ''IP_USERNAME'') \<noteq> None \<and> env (ustr ''IP_PASSWORD'') = None \<longrightarrow>
      main env sessions =
        [Stdout (ustr ''Missing environment variable: '' @ ustr ''IP_PASSWORD''),
         Raise (Exc KeyError (quoted (ustr ''IP_PASSWORD'')))]) \<and>
   (env (ustr ''IP_USERNAME'') = None \<or> env (ustr ''IP_PASSWORD'') = None \<longrightarrow>
      connects (main env sessions) = 0 \<and> acquisitions (main env sessions) = 0 \<and>
      sent (main env sessions) = [] \<and> length (raised (main env sessions)) = 1)"
proof -
  have a: "main env sessions =
        [Stdout (ustr ''Missing environment variable: '' @ ustr ''IP_USERNAME''),
         Raise (Exc KeyError (quoted (ustr ''IP_USERNAME'')))]"
    if "env (ustr ''IP_USERNAME'') = None"
    using that by (simp add: main_def get_env_consts_missing_username)
  have b: "main env sessions =
        [Stdout (ustr ''Missing environment variable: '' @ ustr ''IP_PASSWORD''),
         Raise (Exc KeyError (quoted (ustr ''IP_PASSWORD'')))]"
    if "env (ustr ''IP_USERNAME'') \<noteq> None \<and> env (ustr ''IP_PASSWORD'') = None"
    using that by (auto simp: main_def get_env_consts_missing_password)
  have c: "connects (main env sessions) = 0 \<and> acquisitions (main env sessions) = 0 \<and>
      sent (main env sessions) = [] \<and> length (raised (main env sessions)) = 1"
    if "env (ustr ''IP_USERNAME'') = None \<or> env (ustr ''IP_PASSWORD'') = None"
  proof (cases "env (ustr ''IP_USERNAME'') = None")
    case True
    then show ?thesis by (simp add: a)
  next
    case False
    with that b show ?thesis by simp
  qed
  from a b c show ?thesis by blast
qed

theorem main_missing_credential_witness:
  "(Map.empty :: environ) (ustr ''IP_USERNAME'') = None \<and>
   main Map.empty [] =
     [Stdout (ustr ''Missing environment variable: IP_USERNAME''),
      Raise (Exc KeyError (quoted (ustr ''IP_USERNAME'')))] \<and>
   [ustr ''IP_USERNAME'' \<mapsto> ustr ''alice''] (ustr ''IP_USERNAME'') \<noteq> None \<and>
   [ustr ''IP_USERNAME'' \<mapsto> ustr ''alice''] (ustr ''IP_PASSWORD'') = None \<and>
   main [ustr ''IP_USERNAME'' \<mapsto> ustr ''alice''] [] =
     [Stdout (ustr ''Missing environment variable: IP_PASSWORD''),
      Raise (Exc KeyError (quoted (ustr ''IP_PASSWORD'')))] \<and>
   connects (main [ustr ''IP_USERNAME'' \<mapsto> ustr ''alice''] []) = 0"
proof -
  have h1: "(Map.empty :: environ) (ustr ''IP_USERNAME'') = None"
    by simp
  have h2: "[ustr ''IP_USERNAME'' \<mapsto> ustr ''alice''] (ustr ''IP_USERNAME'') \<noteq> None \<and>
    [ustr ''IP_USERNAME'' \<mapsto> ustr ''alice''] (ustr ''IP_PASSWORD'') = None"
    by (simp add: ustr_def)
  have s1: "ustr ''Missing environment variable: '' @ ustr ''IP_USERNAME''
      = ustr ''Missing environment variable: IP_USERNAME''"
    by (simp add: ustr_def)
  have s2: "ustr ''Missing environment variable: '' @ ustr ''IP_PASSWORD''
      = ustr ''Missing environment variable: IP_PASSWORD''"
    by (simp add: ustr_def)
  from h1 h2 s1 s2 main_missing_credential [of Map.empty "[]"]
    main_missing_credential [of "[ustr ''IP_USERNAME'' \<mapsto> ustr ''alice'']" "[]"]
  show ?thesis by simp
qed

section \<open>Direction of the logged frames\<close>

lemma main_started:
  "env (ustr ''IP_USERNAME'') = Some u \<Longrightarrow> env (ustr ''IP_PASSWORD'') = Some p \<Longrightarrow>
   main env sessions = RunForever 120 # concat (map run_session sessions)"
  by (simp add: main_def get_env_consts_present)

lemma log_calls_main: "set (log_calls (main env sessions)) \<subseteq> {(m, r). r}"
proof (cases "get_env_consts env")
  case (Pair out r)
  have out: "log_calls out = []"
    using Pair
    by (auto simp: get_env_consts_def get_env_var_def split: option.splits)
  show ?thesis
  proof (cases r)
    case (Inl e)
    with Pair out show ?thesis by (simp add: main_def log_calls_append)
  next
    case (Inr c)
    with Pair out log_calls_sessions [of sessions] show ?thesis
      by (simp add: main_def log_calls_append)
  qed
qed

text \<open>
  Claim C9. In every execution of the program each invocation of the frame logger has
  \<open>received = True\<close>, so each logged text starts with the downward glyph and never with
  the upward one. The open callback, which sends the login frame, does not invoke the
  logger; only an inbound frame does.
\<close>

theorem logger_only_inbound:
  "(\<forall>(m, r) \<in> set (log_calls (main env sessions)).
      r \<and> (\<forall>t. hd (formatted_output t m r) = down_arrow \<and>
               hd (formatted_output t m r) \<noteq> up_arrow)) \<and>
   log_calls (on_ws_open pg) = [] \<and>
   log_calls (dispatch ev) = map (\<lambda>m. (m, True)) (frames_of [ev])"
proof -
  have "hd (formatted_output t m True) = down_arrow \<and> hd (formatted_output t m True) \<noteq> up_arrow"
    for t m
    by (simp add: formatted_output_def Let_def direction_indicator_def down_arrow_def up_arrow_def)
  with log_calls_main [of env sessions] log_calls_on_ws_open [of pg] log_calls_dispatch [of ev]
  show ?thesis by auto
qed


theorem logger_only_inbound_witness:
  "(ustr ''PING'', True) \<in> set (log_calls (main
      [ustr ''IP_USERNAME'' \<mapsto> ustr ''alice'', ustr ''IP_PASSWORD'' \<mapsto> ustr ''secret'']
      [(Inr None, [WsMessage (ustr ''PING'')
         \<lparr>year = 2024, month = 3, day = 7, hour = 9, minute = 5, second = 0,
          microsecond = 123456\<rparr>])])) \<and>
   hd (formatted_output
         \<lparr>year = 2024, month = 3, day = 7, hour = 9, minute = 5, second = 0,
          microsecond = 123456\<rparr> (ustr ''PING'') True) = down_arrow"
proof -
  let ?env = "[ustr ''IP_USERNAME'' \<mapsto> ustr ''alice'',
               ustr ''IP_PASSWORD'' \<mapsto> ustr ''secret''] :: environ"
  let ?t = "\<lparr>year = 2024, month = 3, day = 7, hour = 9, minute = 5, second = 0,
          microsecond = 123456\<rparr>"
  let ?ss = "[(Inr None, [WsMessage (ustr ''PING'') ?t])] :: session list"
  have e: "?env (ustr ''IP_USERNAME'') = Some (ustr ''alice'') \<and>
           ?env (ustr ''IP_PASSWORD'') = Some (ustr ''secret'')"
    by (simp add: ustr_def)
  have m: "(ustr ''PING'', True) \<in> set (log_calls (main ?env ?ss))"
    using e by (simp add: main_started log_calls_run_session)
  with logger_only_inbound [of ?env ?ss] show ?thesis
    by fastforce
qed

section \<open>Extraction of the signature\<close>

lemma py_split_max_head:
  "\<exists>ps. py_split_max sep (Suc n) s = takeWhile (\<lambda>c. c \<noteq> sep) s # ps"
  by (induction s) auto

lemma py_split_unfold:
  "py_split sep s =
     takeWhile (\<lambda>c. c \<noteq> sep) s #
       (case after_first sep s of None \<Rightarrow> [] | Some r \<Rightarrow> py_split sep r)"
  by (induction s) (auto split: option.splits)

lemma py_split_nonempty: "py_split sep s \<noteq> []"
  by (subst py_split_unfold) simp

lemma after_first_None: "after_first a p = None \<longleftrightarrow> count_list p a = 0"
  by (induction p) auto

lemma upto_first_None: "upto_first a p = None \<longleftrightarrow> count_list p a = 0"
  by (induction p) auto

lemma upto_first_Some: "upto_first a p = Some q \<Longrightarrow> q = takeWhile (\<lambda>c. c \<noteq> a) p"
  by (induction p arbitrary: q) (auto split: if_splits)

lemma after_first_count:
  "after_first a p = Some r \<Longrightarrow> count_list p a = Suc (count_list r a)"
  by (induction p) (auto split: if_splits)

lemma takeWhile_no_occurrence: "count_list r a = 0 \<Longrightarrow> takeWhile (\<lambda>c. c \<noteq> a) r = r"
  by (induction r) (auto split: if_splits)

lemma sig_plus_wrap:
  "py_index (py_split_max semicolon (Suc 0) script_tag) 0 = Inr (pre_semicolon script_tag)"
proof -
  obtain ps where "py_split_max semicolon (Suc 0) script_tag
      = takeWhile (\<lambda>c. c \<noteq> semicolon) script_tag # ps"
    using py_split_max_head [of semicolon 0 script_tag] by blast
  then show ?thesis
    by (simp add: py_index_def pre_semicolon_def)
qed

lemma second_piece:
  "py_index (py_split a p) (Suc 0) =
     (case after_first a p of
        None \<Rightarrow> Inl (Exc IndexError (ustr ''list index out of range''))
      | Some r \<Rightarrow> Inr (takeWhile (\<lambda>c. c \<noteq> a) r))"
proof (cases "after_first a p")
  case None
  then have "py_split a p = [takeWhile (\<lambda>c. c \<noteq> a) p]"
    by (subst py_split_unfold) simp
  with None show ?thesis by (simp add: py_index_def)
next
  case (Some r)
  then have "py_split a p = takeWhile (\<lambda>c. c \<noteq> a) p # py_split a r"
    by (subst py_split_unfold) simp
  moreover have "py_split a r = takeWhile (\<lambda>c. c \<noteq> a) r #
       (case after_first a r of None \<Rightarrow> [] | Some r' \<Rightarrow> py_split a r')"
    by (rule py_split_unfold)
  ultimately show ?thesis using Some by (simp add: py_index_def)
qed

lemma get_signature_script:
  "get_signature (Inr (Some script_tag)) =
     (case after_first apostrophe (pre_semicolon script_tag) of
        None \<Rightarrow> Inl (Exc IndexError (ustr ''list index out of range''))
      | Some r \<Rightarrow> Inr (takeWhile (\<lambda>c. c \<noteq> apostrophe) r))"
  by (simp add: get_signature_def sig_plus_wrap second_piece)

text \<open>
  Claim C8, as stated, fails: the text \<open>it's\<close> has a single apostrophe and so no
  single-quoted literal, yet the acquirer extracts the signature \<open>s\<close> from it.
\<close>

theorem unclosed_quote_is_extracted:
  "get_signature (Inr (Some (ustr ''it'' @ [apostrophe] @ ustr ''s''))) = Inr (ustr ''s'') \<and>
   first_quoted (pre_semicolon (ustr ''it'' @ [apostrophe] @ ustr ''s'')) = None"
  by (simp add: get_signature_def py_index_def first_quoted_def pre_semicolon_def ustr_def
        apostrophe_def semicolon_def)

text \<open>
  Claim C8, amended. For every script text whose content up to the first semicolon has at
  least two apostrophes, the signature extracted is the first single-quoted literal of
  that content, the substring between its first and its second apostrophe. Whenever that
  literal exists, it is the signature.
\<close>

theorem get_signature_first_quoted:
  "(2 \<le> count_list (pre_semicolon script_tag) apostrophe \<longrightarrow>
      (\<exists>q. first_quoted (pre_semicolon script_tag) = Some q \<and>
           get_signature (Inr (Some script_tag)) = Inr q)) \<and>
   (\<forall>q. first_quoted (pre_semicolon script_tag) = Some q \<longrightarrow>
      get_signature (Inr (Some script_tag)) = Inr q)"
proof -
  let ?p = "pre_semicolon script_tag"
  have b: "get_signature (Inr (Some script_tag)) = Inr q" if "first_quoted ?p = Some q" for q
  proof -
    from that obtain r where r: "after_first apostrophe ?p = Some r"
      and q: "upto_first apostrophe r = Some q"
      by (auto simp: first_quoted_def split: option.splits)
    from q have "q = takeWhile (\<lambda>c. c \<noteq> apostrophe) r" by (rule upto_first_Some)
    with r show ?thesis by (simp add: get_signature_script)
  qed
  have a: "\<exists>q. first_quoted ?p = Some q" if "2 \<le> count_list ?p apostrophe"
  proof -
    from that have "after_first apostrophe ?p \<noteq> None"
      by (simp add: after_first_None)
    then obtain r where r: "after_first apostrophe ?p = Some r" by blast
    with that have "count_list r apostrophe \<noteq> 0"
      by (auto dest: after_first_count)
    then have "upto_first apostrophe r \<noteq> None"
      by (simp add: upto_first_None)
    with r show ?thesis by (auto simp: first_quoted_def)
  qed
  from a b show ?thesis by blast
qed

theorem get_signature_first_quoted_witness:
  "2 \<le> count_list (pre_semicolon (ustr ''var s = '' @ [apostrophe] @ ustr ''abc123''
          @ [apostrophe, semicolon] @ ustr '' t = '' @ [apostrophe] @ ustr ''x''
          @ [apostrophe, semicolon])) apostrophe \<and>
   first_quoted (pre_semicolon (ustr ''var s = '' @ [apostrophe] @ ustr ''abc123''
          @ [apostrophe, semicolon] @ ustr '' t = '' @ [apostrophe] @ ustr ''x''
          @ [apostrophe, semicolon])) = Some (ustr ''abc123'') \<and>
   get_signature (Inr (Some (ustr ''var s = '' @ [apostrophe] @ ustr ''abc123''
          @ [apostrophe, semicolon] @ ustr '' t = '' @ [apostrophe] @ ustr ''x''
          @ [apostrophe, semicolon]))) = Inr (ustr ''abc123'')"
proof -
  let ?s = "ustr ''var s = '' @ [apostrophe] @ ustr ''abc123''
          @ [apostrophe, semicolon] @ ustr '' t = '' @ [apostrophe] @ ustr ''x''
          @ [apostrophe, semicolon]"
  have h: "2 \<le> count_list (pre_semicolon ?s) apostrophe"
    by (simp add: pre_semicolon_def ustr_def apostrophe_def semicolon_def)
  have f: "first_quoted (pre_semicolon ?s) = Some (ustr ''abc123'')"
    by (simp add: first_quoted_def pre_semicolon_def ustr_def apostrophe_def semicolon_def)
  from h f get_signature_first_quoted [of ?s] show ?thesis
    by simp
qed

text \<open>
  Claim C10, as stated, fails: a script text whose content up to the first semicolon has
  exactly one apostrophe has fewer than two, and the acquirer returns a signature for it.
\<close>

theorem one_apostrophe_returns:
  "count_list (pre_semicolon (ustr ''var s = '' @ [apostrophe] @ ustr ''abc''
       @ [semicolon] @ ustr '' t = 1'' @ [semicolon])) apostrophe < 2 \<and>
   get_signature (Inr (Some (ustr ''var s = '' @ [apostrophe] @ ustr ''abc''
       @ [semicolon] @ ustr '' t = 1'' @ [semicolon]))) = Inr (ustr ''abc'')"
  by (simp add: get_signature_def py_index_def pre_semicolon_def ustr_def
        apostrophe_def semicolon_def)

text \<open>
  Claim C10, amended. With no script tag the acquirer raises an \<open>AttributeError\<close>.
  With a script text whose content up to the first semicolon has no apostrophe it raises
  an \<open>IndexError\<close>, and this is the only case in which a script text makes it raise.
  With exactly one apostrophe it returns what follows that apostrophe.
\<close>

theorem get_signature_raises:
  "get_signature (Inr None) =
     Inl (Exc AttributeError
            (quoted (ustr ''NoneType'') @ ustr '' object has no attribute ''
               @ quoted (ustr ''text''))) \<and>
   (count_list (pre_semicolon script_tag) apostrophe = 0 \<longrightarrow>
      get_signature (Inr (Some script_tag)) =
        Inl (Exc IndexError (ustr ''list index out of range''))) \<and>
   (count_list (pre_semicolon script_tag) apostrophe = 1 \<longrightarrow>
      (\<exists>r. after_first apostrophe (pre_semicolon script_tag) = Some r \<and>
           get_signature (Inr (Some script_tag)) = Inr r)) \<and>
   ((\<exists>e. get_signature (Inr (Some script_tag)) = Inl e)
      \<longleftrightarrow> count_list (pre_semicolon script_tag) apostrophe = 0)"
proof -
  let ?p = "pre_semicolon script_tag"
  have a: "get_signature (Inr None) =
     Inl (Exc AttributeError
            (quoted (ustr ''NoneType'') @ ustr '' object has no attribute ''
               @ quoted (ustr ''text'')))"
    by (simp add: get_signature_def)
  have b: "get_signature (Inr (Some script_tag)) =
        Inl (Exc IndexError (ustr ''list index out of range''))"
    if "count_list ?p apostrophe = 0"
  proof -
    from that have "after_first apostrophe ?p = None" by (simp add: after_first_None)
    then show ?thesis by (simp add: get_signature_script)
  qed
  have c: "\<exists>r. after_first apostrophe ?p = Some r \<and> get_signature (Inr (Some script_tag)) = Inr r"
    if "count_list ?p apostrophe = 1"
  proof -
    from that have "after_first apostrophe ?p \<noteq> None" by (simp add: after_first_None)
    then obtain r where r: "after_first apostrophe ?p = Some r" by blast
    with that have "count_list r apostrophe = 0"
      by (auto dest: after_first_count)
    then have "takeWhile (\<lambda>c. c \<noteq> apostrophe) r = r" by (rule takeWhile_no_occurrence)
    with r show ?thesis by (simp add: get_signature_script)
  qed
  have d: "(\<exists>e. get_signature (Inr (Some script_tag)) = Inl e) \<longleftrightarrow> count_list ?p apostrophe = 0"
    by (cases "after_first apostrophe ?p")
       (simp_all add: get_signature_script after_first_None [symmetric])
  from a b c d show ?thesis by blast
qed

theorem get_signature_raises_witness:
  "count_list (pre_semicolon (ustr ''var s = 1'' @ [semicolon])) apostrophe = 0 \<and>
   get_signature (Inr (Some (ustr ''var s = 1'' @ [semicolon]))) =
     Inl (Exc IndexError (ustr ''list index out of range'')) \<and>
   count_list (pre_semicolon (ustr ''var s = '' @ [apostrophe] @ ustr ''abc''
       @ [semicolon])) apostrophe = 1 \<and>
   get_signature (Inr (Some (ustr ''var s = '' @ [apostrophe] @ ustr ''abc''
       @ [semicolon]))) = Inr (ustr ''abc'')"
proof -
  let ?s0 = "ustr ''var s = 1'' @ [semicolon]"
  let ?s1 = "ustr ''var s = '' @ [apostrophe] @ ustr ''abc'' @ [semicolon]"
  have h0: "count_list (pre_semicolon ?s0) apostrophe = 0"
    by (simp add: pre_semicolon_def ustr_def apostrophe_def semicolon_def)
  have h1: "count_list (pre_semicolon ?s1) apostrophe = 1"
    by (simp add: pre_semicolon_def ustr_def apostrophe_def semicolon_def)
  have r1: "after_first apostrophe (pre_semicolon ?s1) = Some (ustr ''abc'')"
    by (simp add: pre_semicolon_def ustr_def apostrophe_def semicolon_def)
  from h0 h1 r1 get_signature_raises [of ?s0] get_signature_raises [of ?s1] show ?thesis
    by auto
qed

section \<open>The logged line\<close>

lemma length_fixw: "length (fixw w n) = w"
  by (induction w arbitrary: n) simp_all

lemma fixw_zero: "fixw w 0 = replicate w (digit 0)"
  by (induction w) (simp_all add: replicate_append_same)

lemma length_decimal_pos: "0 < length (decimal n)"
  by (subst decimal.simps) simp

lemma zpad_small: "n < 10 \<Longrightarrow> zpad (Suc w) n = replicate w (digit 0) @ [digit n]"
  by (simp add: zpad_def decimal.simps)

lemma zpad_step: "10 \<le> n \<Longrightarrow> zpad (Suc w) n = zpad w (n div 10) @ [digit (n mod 10)]"
  by (simp add: zpad_def decimal.simps [of n])

lemma zpad_fixw: "n < 10 ^ Suc w \<Longrightarrow> zpad (Suc w) n = fixw (Suc w) n"
proof (induction w arbitrary: n)
  case 0
  then show ?case by (simp add: zpad_small)
next
  case (Suc w)
  show ?case
  proof (cases "n < 10")
    case True
    then show ?thesis by (simp add: zpad_small fixw_zero replicate_append_same)
  next
    case False
    from Suc.prems have "n div 10 < 10 ^ Suc w"
      by (simp add: less_mult_imp_div_less mult.commute)
    with False Suc.IH [of "n div 10"] show ?thesis
      by (simp add: zpad_step)
  qed
qed

lemma fixw_2: "fixw 2 n = [digit (n div 10 mod 10), digit (n mod 10)]"
  by (simp add: numeral_2_eq_2)

lemma fixw_3:
  "fixw 3 n = [digit (n div 100 mod 10), digit (n div 10 mod 10), digit (n mod 10)]"
  by (simp add: numeral_3_eq_3 div_mult2_eq [symmetric])

lemma fixw_6_split: "fixw 6 n = fixw 3 (n div 1000) @ fixw 3 n"
proof -
  have six: "(6::nat) = Suc (Suc (Suc (Suc (Suc (Suc 0)))))"
    by simp
  show ?thesis
    by (subst six) (simp add: fixw_3 div_mult2_eq [symmetric])
qed

lemma zpad_2: "n < 100 \<Longrightarrow> zpad 2 n = fixw 2 n"
  using zpad_fixw [of n 1] by (simp add: numeral_2_eq_2)

lemma zpad_6: "n < 1000000 \<Longrightarrow> zpad 6 n = fixw 6 n"
proof -
  assume "n < 1000000"
  then have "n < 10 ^ Suc 5" by simp
  then have "zpad (Suc 5) n = fixw (Suc 5) n" by (rule zpad_fixw)
  then show ?thesis by simp
qed

lemma count_fixw_newline: "count_list (fixw w n) newline = 0"
  by (induction w arbitrary: n) (simp_all add: digit_def newline_def)

lemma time_rendering:
  assumes "valid_datetime t"
  shows "drop_last3 (strftime_HMSf t) = hms_millis t"
proof -
  from assms have "hour t < 100" "minute t < 100" "second t < 100"
    "microsecond t < 1000000"
    by (simp_all add: valid_datetime_def)
  then have "strftime_HMSf t =
      (fixw 2 (hour t) @ ustr '':'' @ fixw 2 (minute t) @ ustr '':'' @ fixw 2 (second t)
         @ ustr ''.'' @ fixw 3 (microsecond t div 1000)) @ fixw 3 (microsecond t)"
    by (simp add: strftime_HMSf_def zpad_2 zpad_6 fixw_6_split)
  then show ?thesis
    by (simp add: drop_last3_def hms_millis_def length_fixw)
qed

lemma length_hms_millis: "length (hms_millis t) = 12"
  by (simp add: hms_millis_def length_fixw ustr_def)

lemma count_hms_millis_newline: "count_list (hms_millis t) newline = 0"
  by (simp add: hms_millis_def count_fixw_newline [unfolded newline_def] ustr_def newline_def)

text \<open>
  Claim C7, as stated, fails. The text printed for the inbound payload \<open>PING\<close> is the
  glyph, the bracketed time and the payload: the length 4 is not in it, no digit 4 occurs
  at all. And a payload with a line break in it is printed as two lines.
\<close>

theorem log_line_without_length:
  "log_ws_message
     \<lparr>year = 2024, month = 3, day = 7, hour = 9, minute = 5, second = 0,
      microsecond = 123456\<rparr> (ustr ''PING'') True =
     [LogFrame (ustr ''PING'') True, Stdout (down_arrow # ustr ''[09:05:00.123] PING'')] \<and>
   digit 4 \<notin> set (down_arrow # ustr ''[09:05:00.123] PING'') \<and>
   count_list (printed (formatted_output
     \<lparr>year = 2024, month = 3, day = 7, hour = 9, minute = 5, second = 0,
      microsecond = 123456\<rparr> (ustr ''PI'' @ [newline] @ ustr ''NG'') True)) newline = 2"
  by (simp add: log_ws_message_def formatted_output_def make_message_data_def Let_def
        drop_last3_def strftime_HMSf_def zpad_def decimal.simps digit_def ustr_def
        direction_indicator_def down_arrow_def printed_def newline_def)

text \<open>
  Claim C7, amended. Every call of the frame logger prints exactly once. The text starts
  with a direction glyph that differs between inbound and outbound, continues with the
  clock reading rendered as \<open>HH:MM:SS.mmm\<close> in brackets (twelve characters, the
  microseconds cut to milliseconds), and ends with the whole payload, unchanged. The
  printed text has one line break more than the payload, so it is a single line when the
  payload has none. The length of the payload is recorded in the entry built for the
  call, and is not part of the printed text.
\<close>

theorem log_ws_message_line:
  assumes "valid_datetime t"
  shows "log_ws_message t raw_message received =
           [LogFrame raw_message received,
            Stdout (direction_indicator received # ustr ''['' @ hms_millis t @ ustr ''] ''
                      @ raw_message)] \<and>
         direction_indicator True \<noteq> direction_indicator False \<and>
         length (hms_millis t) = 12 \<and>
         md_length (make_message_data t raw_message received) = length raw_message \<and>
         count_list (printed (formatted_output t raw_message received)) newline
           = Suc (count_list raw_message newline)"
proof -
  have f: "formatted_output t raw_message received =
      direction_indicator received # ustr ''['' @ hms_millis t @ ustr ''] '' @ raw_message"
    using assms by (simp add: formatted_output_def make_message_data_def time_rendering)
  have g: "direction_indicator True \<noteq> direction_indicator False"
    by (simp add: direction_indicator_def down_arrow_def up_arrow_def)
  have l: "md_length (make_message_data t raw_message received) = length raw_message"
    by (simp add: make_message_data_def)
  have n: "count_list (printed (formatted_output t raw_message received)) newline
           = Suc (count_list raw_message newline)"
    by (simp add: f printed_def count_hms_millis_newline [unfolded newline_def]
          direction_indicator_def down_arrow_def up_arrow_def ustr_def newline_def)
  from f g l n length_hms_millis [of t] show ?thesis
    by (simp add: log_ws_message_def)
qed

theorem log_ws_message_line_witness:
  "valid_datetime \<lparr>year = 2024, month = 3, day = 7, hour = 9, minute = 5, second = 0,
      microsecond = 123456\<rparr> \<and>
   log_ws_message
     \<lparr>year = 2024, month = 3, day = 7, hour = 9, minute = 5, second = 0,
      microsecond = 123456\<rparr> (ustr ''PING'') True =
     [LogFrame (ustr ''PING'') True, Stdout (down_arrow # ustr ''[09:05:00.123] PING'')] \<and>
   md_length (make_message_data
     \<lparr>year = 2024, month = 3, day = 7, hour = 9, minute = 5, second = 0,
      microsecond = 123456\<rparr> (ustr ''PING'') True) = 4"
proof -
  let ?t = "\<lparr>year = 2024, month = 3, day = 7, hour = 9, minute = 5, second = 0,
      microsecond = 123456\<rparr>"
  have h: "valid_datetime ?t"
    by (simp add: valid_datetime_def)
  have r: "hms_millis ?t = ustr ''09:05:00.123''"
    by (simp add: hms_millis_def fixw_2 fixw_3 digit_def ustr_def)
  from log_ws_message_line [OF h, of "ustr ''PING''" True] h r show ?thesis
    by (simp add: direction_indicator_def ustr_def)
qed

section \<open>The error handler\<close>

lemma decimal_small: "n < 10 \<Longrightarrow> decimal n = [digit n]"
  by (simp add: decimal.simps)

lemma decimal_step: "10 \<le> n \<Longrightarrow> decimal n = decimal (n div 10) @ [digit (n mod 10)]"
  by (simp add: decimal.simps [of n])

lemma fixw_1: "fixw 1 n = [digit (n mod 10)]"
  by simp

lemma fixw_4:
  "fixw 4 n =
     [digit (n div 1000 mod 10), digit (n div 100 mod 10), digit (n div 10 mod 10),
      digit (n mod 10)]"
proof -
  have four: "(4::nat) = Suc (Suc (Suc (Suc 0)))"
    by simp
  show ?thesis
    by (subst four) (simp add: div_mult2_eq [symmetric])
qed

lemma decimal_year: "y < 10000 \<Longrightarrow> decimal y = fixw (year_width y) y"
proof -
  assume y: "y < 10000"
  consider "y < 10" | "10 \<le> y" "y < 100" | "100 \<le> y" "y < 1000" | "1000 \<le> y"
    by linarith
  then show ?thesis
  proof cases
    case 1
    then show ?thesis by (simp add: year_width_def decimal_small)
  next
    case 2
    then have "y div 10 < 10" by simp
    with 2 show ?thesis
      by (simp add: year_width_def decimal_step decimal_small fixw_2)
  next
    case 3
    then have a: "10 \<le> y div 10" and b: "y div 10 div 10 < 10"
      by simp_all
    from 3 have "decimal y = decimal (y div 10) @ [digit (y mod 10)]"
      by (simp add: decimal_step)
    also from a have "decimal (y div 10) = decimal (y div 10 div 10) @ [digit (y div 10 mod 10)]"
      by (rule decimal_step)
    also from b have "decimal (y div 10 div 10) = [digit (y div 10 div 10)]"
      by (rule decimal_small)
    finally show ?thesis
      using 3 b by (simp add: year_width_def fixw_3 div_mult2_eq [symmetric])
  next
    case 4
    with y have a: "10 \<le> y div 10" and b: "10 \<le> y div 10 div 10"
      and c: "y div 10 div 10 div 10 < 10"
      by simp_all
    from 4 have "decimal y = decimal (y div 10) @ [digit (y mod 10)]"
      by (simp add: decimal_step)
    also from a have "decimal (y div 10) = decimal (y div 10 div 10) @ [digit (y div 10 mod 10)]"
      by (rule decimal_step)
    also from b have "decimal (y div 10 div 10)
        = decimal (y div 10 div 10 div 10) @ [digit (y div 10 div 10 mod 10)]"
      by (rule decimal_step)
    also from c have "decimal (y div 10 div 10 div 10) = [digit (y div 10 div 10 div 10)]"
      by (rule decimal_small)
    finally show ?thesis
      using 4 c by (simp add: year_width_def fixw_4 div_mult2_eq [symmetric])
  qed
qed

lemma date_time_rendering:
  assumes "valid_datetime t"
  shows "strftime_dmY_HMS t = date_time_text t"
proof -
  from assms have "day t < 100" "month t < 100" "year t < 10000" "hour t < 100"
    "minute t < 100" "second t < 100"
    by (simp_all add: valid_datetime_def)
  then show ?thesis
    by (simp add: strftime_dmY_HMS_def date_time_text_def zpad_2 decimal_year)
qed

text \<open>
  Claim C4. The error handler prints the single retry message, and nothing else, exactly
  when the error is a \<open>WebSocketConnectionClosedException\<close>. For every other error it
  prints the timestamp, then the error, then the lines of the traceback; the timestamp
  of a clock reading is its date and time of day as \<open>DD/MM/YYYY , HH:MM:SS\<close>. In both
  cases the handler returns: no exception leaves it.
\<close>

theorem on_ws_error_cases:
  "(on_ws_error now err = [Stdout (ustr ''Connection closed. Retrying...'')]
      \<longleftrightarrow> err_class err = WebSocketConnectionClosedException) \<and>
   (err_class err \<noteq> WebSocketConnectionClosedException \<longrightarrow>
      on_ws_error now err =
        Stdout (strftime_dmY_HMS now) # Stdout (err_str err) # map Stderr (err_tb err)) \<and>
   (valid_datetime now \<and> err_class err \<noteq> WebSocketConnectionClosedException \<longrightarrow>
      on_ws_error now err =
        Stdout (date_time_text now) # Stdout (err_str err) # map Stderr (err_tb err)) \<and>
   raised (on_ws_error now err) = []"
proof -
  have "strftime_dmY_HMS now = date_time_text now" if "valid_datetime now"
    using that by (rule date_time_rendering)
  then show ?thesis
    by (auto simp: on_ws_error_def stderr_lines_quiet)
qed

theorem on_ws_error_cases_witness:
  "valid_datetime \<lparr>year = 2024, month = 3, day = 7, hour = 9, minute = 5, second = 0,
      microsecond = 123456\<rparr> \<and>
   IndexError \<noteq> WebSocketConnectionClosedException \<and>
   on_ws_error
     \<lparr>year = 2024, month = 3, day = 7, hour = 9, minute = 5, second = 0,
      microsecond = 123456\<rparr>
     (Error IndexError (ustr ''list index out of range'') [ustr ''  File main.py, line 62''])
   = [Stdout (ustr ''07/03/2024 , 09:05:00''), Stdout (ustr ''list index out of range''),
      Stderr (ustr ''  File main.py, line 62'')] \<and>
   valid_datetime \<lparr>year = 999, month = 1, day = 2, hour = 23, minute = 59, second = 58,
      microsecond = 0\<rparr> \<and>
   on_ws_error
     \<lparr>year = 999, month = 1, day = 2, hour = 23, minute = 59, second = 58,
      microsecond = 0\<rparr>
     (Error KeyError (ustr ''k'') [])
   = [Stdout (ustr ''02/01/999 , 23:59:58''), Stdout (ustr ''k'')]"
proof -
  let ?t = "\<lparr>year = 2024, month = 3, day = 7, hour = 9, minute = 5, second = 0,
      microsecond = 123456\<rparr>"
  let ?u = "\<lparr>year = 999, month = 1, day = 2, hour = 23, minute = 59, second = 58,
      microsecond = 0\<rparr>"
  let ?e = "Error IndexError (ustr ''list index out of range'')
      [ustr ''  File main.py, line 62'']"
  let ?k = "Error KeyError (ustr ''k'') []"
  have v1: "valid_datetime ?t"
    by (simp add: valid_datetime_def)
  have v2: "valid_datetime ?u"
    by (simp add: valid_datetime_def)
  have i: "IndexError \<noteq> WebSocketConnectionClosedException"
    by simp
  have c1: "err_class ?e \<noteq> WebSocketConnectionClosedException"
    by simp
  have c2: "err_class ?k \<noteq> WebSocketConnectionClosedException"
    by simp
  have r: "date_time_text ?t = ustr ''07/03/2024 , 09:05:00''"
    by (simp add: date_time_text_def year_width_def fixw_2 fixw_4 digit_def ustr_def)
  have q: "date_time_text ?u = ustr ''02/01/999 , 23:59:58''"
    by (simp add: date_time_text_def year_width_def fixw_2 fixw_3 digit_def ustr_def)
  have "on_ws_error ?t ?e =
      Stdout (date_time_text ?t) # Stdout (err_str ?e) # map Stderr (err_tb ?e)"
    by (rule on_ws_error_cases [of ?t ?e, THEN conjunct2, THEN conjunct2, THEN conjunct1,
          THEN mp, OF conjI [OF v1 c1]])
  then have a: "on_ws_error ?t ?e =
      [Stdout (ustr ''07/03/2024 , 09:05:00''), Stdout (ustr ''list index out of range''),
       Stderr (ustr ''  File main.py, line 62'')]"
    by (simp only: r error.sel list.map)
  have "on_ws_error ?u ?k =
      Stdout (date_time_text ?u) # Stdout (err_str ?k) # map Stderr (err_tb ?k)"
    by (rule on_ws_error_cases [of ?u ?k, THEN conjunct2, THEN conjunct2, THEN conjunct1,
          THEN mp, OF conjI [OF v2 c2]])
  then have b: "on_ws_error ?u ?k = [Stdout (ustr ''02/01/999 , 23:59:58''), Stdout (ustr ''k'')]"
    by (simp only: q error.sel list.map)
  show ?thesis
    by (rule conjI [OF v1 conjI [OF i conjI [OF a conjI [OF v2 b]]]])
qed

end
